theory Spec2Isabelle
  imports Complex_Main "HOL-Library.Sublist"
begin

section \<open>Vibify: the Spotify client library and the token refresh\<close>

text \<open>
  The development embeds \<^verbatim>\<open>lib/spotify.ts\<close> (the request queue, the retry wrapper,
  \<^verbatim>\<open>chunkArray\<close>, \<^verbatim>\<open>getTrackFeatures\<close>, \<^verbatim>\<open>getRecommendations\<close>, the score
  functions) and \<^verbatim>\<open>refreshAccessToken\<close> of the NextAuth route.

  Conventions of the embedding.
  \<^item> A JavaScript \<^verbatim>\<open>number\<close> that the code only counts with (retry budget, attempt,
    array index, HTTP status) is a \<open>nat\<close>; a number that can be negative is an
    \<open>int\<close>; a number that \<^verbatim>\<open>parseInt\<close> or a missing field can turn into \<^verbatim>\<open>NaN\<close> is a
    \<open>number\<close>; the \<^verbatim>\<open>limit\<close> of \<^verbatim>\<open>getRecommendations\<close>, which the code hands to
    \<^verbatim>\<open>Array\<close>, is a \<open>js_number\<close> (any real, \<^verbatim>\<open>NaN\<close> or an infinity); the audio
    features and the scores are \<open>real\<close> (the doubles of the source, without rounding).
  \<^item> A field that may be \<^verbatim>\<open>undefined\<close> is an \<open>option\<close>.
  \<^item> A thrown value is the \<open>Inl\<close> of a sum; \<^verbatim>\<open>try\<close>/\<^verbatim>\<open>catch\<close> is a case split on it.
  \<^item> The remote API and the clock are explicit state: every \<^verbatim>\<open>fetch\<close> and every
    \<^verbatim>\<open>delay\<close> is appended to a trace, and the remote answers from a world of its own
    that each request may change.
  \<^item> Strings are byte strings, but for the header that \<^verbatim>\<open>parseInt\<close> reads, which is
    the list of its UTF-16 code units; calls of \<^verbatim>\<open>console\<close> are left out; the rounding of
    doubles and the bound of the platform on memory are not modelled.
\<close>

subsection \<open>Numbers\<close>

datatype number = NaN | Num int

fun times_number :: "number \<Rightarrow> int \<Rightarrow> number" where
  "times_number NaN k = NaN"
| "times_number (Num n) k = Num (n * k)"

text \<open>
  A \<^verbatim>\<open>number\<close> in full: a finite value, \<^verbatim>\<open>NaN\<close>, \<^verbatim>\<open>Infinity\<close> or
  \<^verbatim>\<open>-Infinity\<close>.
\<close>

datatype js_number = Number real | Not_a_Number | Infinity | Minus_Infinity

text \<open>
  \<^verbatim>\<open>Array(len)\<close> with a number: the array has \<^verbatim>\<open>len\<close> holes when \<^verbatim>\<open>len\<close> is an
  integer from 0 to \<open>2^32 - 1\<close>, and a \<^verbatim>\<open>RangeError\<close> is thrown for every other number
  (a fraction, a negative number, \<open>2^32\<close> or more, \<^verbatim>\<open>NaN\<close>, an infinity).
  \<open>array_length len\<close> is the length of the array, \<open>None\<close> when the call throws.
\<close>

definition array_length :: "js_number \<Rightarrow> nat option" where
  "array_length len =
     (case len of
        Number x \<Rightarrow>
          if 0 \<le> x \<and> x < 2 ^ 32 \<and> of_int \<lfloor>x\<rfloor> = x then Some (nat \<lfloor>x\<rfloor>) else None
      | Not_a_Number \<Rightarrow> None
      | Infinity \<Rightarrow> None
      | Minus_Infinity \<Rightarrow> None)"

subsection \<open>Derived metrics\<close>

text \<open>
  \<^verbatim>\<open>
  export function calculateMoodScore(valence: number, energy: number): number {
    return Math.max(0, Math.min(100, ((valence + energy) / 2) * 100));
  }
  \<close>
\<close>

definition calculateMoodScore :: "real \<Rightarrow> real \<Rightarrow> real" where
  "calculateMoodScore valence energy = max 0 (min 100 (((valence + energy) / 2) * 100))"

text \<open>The \<open>clamp(x, lo, hi)\<close> of the specification's formula (section 4.4), in its own words.\<close>

definition spec_clamp :: "real \<Rightarrow> real \<Rightarrow> real \<Rightarrow> real" where
  "spec_clamp x lo hi = (if x < lo then lo else if hi < x then hi else x)"

subsection \<open>Responses\<close>

text \<open>
  What a \<^verbatim>\<open>fetch\<close> settles to: the promise rejects (with an error message), or it
  resolves to a response with a status, a status text and a body. The body is \<open>Inr\<close> of
  the parsed JSON object, or \<open>Inl\<close> of the message of the error that
  \<^verbatim>\<open>response.json()\<close> rejects with.
\<close>

datatype 'b fetched = Rejected string | Responded nat string "string + 'b"

text \<open>\<^verbatim>\<open>response.ok\<close>: the status is in the range 200 to 299.\<close>

definition ok :: "nat \<Rightarrow> bool" where
  "ok status = (200 \<le> status \<and> status \<le> 299)"

subsection \<open>Strings\<close>

text \<open>The decimal rendering of a count, as a template literal prints it.\<close>

definition digit_char :: "nat \<Rightarrow> char" where
  "digit_char d = char_of (48 + d)"

fun toString :: "nat \<Rightarrow> string" where
  "toString n = (if n < 10 then [digit_char n] else toString (n div 10) @ [digit_char (n mod 10)])"

declare toString.simps [simp del]

text \<open>\<^verbatim>\<open>s.includes(sub)\<close> and \<^verbatim>\<open>s.startsWith(pre)\<close> (the latter is \<open>prefix pre s\<close>).\<close>

fun includes_str :: "string \<Rightarrow> string \<Rightarrow> bool" where
  "includes_str [] sub = (sub = [])"
| "includes_str (c # cs) sub = (prefix sub (c # cs) \<or> includes_str cs sub)"

text \<open>
  \<^verbatim>\<open>parseInt(str)\<close> without a radix, on a string given as the list of its UTF-16 code
  units: leading white space is skipped, a sign is read, a \<^verbatim>\<open>0x\<close> prefix selects radix
  16, the longest run of digits is the value, and no digit at all gives \<^verbatim>\<open>NaN\<close>.
  White space is what the language trims: the code points \<^verbatim>\<open>WhiteSpace\<close> (TAB, VT, FF,
  U+FEFF and the space separators U+0020, U+00A0, U+1680, U+2000 to U+200A, U+202F,
  U+205F, U+3000) and \<^verbatim>\<open>LineTerminator\<close> (LF, CR, U+2028, U+2029).
  \<open>code_units str\<close> is the list of the code units of a string of one-byte characters.
\<close>

type_synonym code_unit = nat

definition code_units :: "string \<Rightarrow> code_unit list" where
  "code_units str = map of_char str"

definition is_space :: "code_unit \<Rightarrow> bool" where
  "is_space c =
     (c \<in> {0x09, 0x0A, 0x0B, 0x0C, 0x0D, 0x20, 0xA0, 0x1680, 0x2028, 0x2029, 0x202F, 0x205F,
            0x3000, 0xFEFF}
      \<or> (0x2000 \<le> c \<and> c \<le> 0x200A))"

definition digit_value :: "code_unit \<Rightarrow> nat option" where
  "digit_value c =
     (if 48 \<le> c \<and> c \<le> 57 then Some (c - 48)
      else if 97 \<le> c \<and> c \<le> 122 then Some (c - 87)
      else if 65 \<le> c \<and> c \<le> 90 then Some (c - 55)
      else None)"

definition is_digit :: "nat \<Rightarrow> code_unit \<Rightarrow> bool" where
  "is_digit radix c = (case digit_value c of Some d \<Rightarrow> d < radix | None \<Rightarrow> False)"

definition parseInt :: "code_unit list \<Rightarrow> number" where
  "parseInt str =
     (let s0 = dropWhile is_space str;
          negative = (take 1 s0 = code_units ''-'');
          s1 = (if take 1 s0 = code_units ''-'' \<or> take 1 s0 = code_units ''+'' then drop 1 s0 else s0);
          hex = (take 2 s1 = code_units ''0x'' \<or> take 2 s1 = code_units ''0X'');
          s2 = (if hex then drop 2 s1 else s1);
          radix = (if hex then 16 else 10);
          z = takeWhile (is_digit radix) s2;
          mathInt = foldl (\<lambda>acc c. acc * radix + (case digit_value c of Some d \<Rightarrow> d | None \<Rightarrow> 0)) 0 z
      in if z = [] then NaN
         else if negative then Num (- int mathInt) else Num (int mathInt))"

subsection \<open>The remote API, the clock and the trace\<close>

text \<open>
  A track object, with the fields the code builds for a placeholder:
  \<^verbatim>\<open>artists[i].name\<close>, \<^verbatim>\<open>album.images[i].url\<close> and \<^verbatim>\<open>external_urls.spotify\<close>
  are flattened. The field \<^verbatim>\<open>id\<close> is \<open>id_track\<close>, \<^verbatim>\<open>name\<close> is \<open>name_track\<close>.
\<close>

record track =
  id_track :: string
  name_track :: string
  artists :: "string list"
  album_images :: "string list"
  external_urls_spotify :: string

record features =
  danceability :: real
  energy :: real
  valence :: real
  tempo :: real
  acousticness :: real
  instrumentalness :: real

text \<open>The fields that the code reads from a JSON answer of the Web API.\<close>

record json =
  tracks :: "track list option"
  genres :: "string list option"
  audio_features :: "features list option"

text \<open>
  The requests of the library: the bearer token comes first.
  \<^item> \<open>Recommendations token seed_genres seed_tracks target_popularity limit\<close>
  \<^item> \<open>AvailableGenreSeeds token\<close>
  \<^item> \<open>AudioFeatures token ids\<close>
\<close>

datatype request =
    Recommendations string "string list" "string list" int js_number
  | AvailableGenreSeeds string
  | AudioFeatures string "string list"

text \<open>
  The trace of a run: each \<^verbatim>\<open>fetch\<close> with what it settled to, each \<^verbatim>\<open>delay(ms)\<close>,
  and each call \<^verbatim>\<open>operation()\<close> of the retry wrapper with the number of the attempt.
\<close>

datatype event =
    Fetch request "json fetched"
  | Delay number
  | Attempt nat

record 'w io =
  world :: 'w
  trace :: "event list"

type_synonym 'w remote = "'w \<Rightarrow> request \<Rightarrow> json fetched \<times> 'w"

definition fetch :: "'w remote \<Rightarrow> request \<Rightarrow> 'w io \<Rightarrow> json fetched \<times> 'w io" where
  "fetch remote req s =
     (case remote (world s) req of
        (r, w') \<Rightarrow> (r, \<lparr>world = w', trace = trace s @ [Fetch req r]\<rparr>))"

definition delay :: "number \<Rightarrow> 'w io \<Rightarrow> 'w io" where
  "delay ms s = s\<lparr>trace := trace s @ [Delay ms]\<rparr>"

text \<open>
  A thrown error object, with the properties that the code reads:
  \<^verbatim>\<open>error.statusCode\<close>, \<^verbatim>\<open>error.message\<close>, \<^verbatim>\<open>error.headers?.['retry-after']\<close> (a
  string, read by \<^verbatim>\<open>parseInt\<close>: its code units) and \<^verbatim>\<open>error.response?.status\<close>.
  \<open>new_Error msg\<close> is \<^verbatim>\<open>new Error(msg)\<close>, the \<^verbatim>\<open>RangeError\<close> of \<^verbatim>\<open>Array\<close> included.
\<close>

record js_error =
  statusCode :: "nat option"
  message :: string
  retry_after :: "code_unit list option"
  response_status :: "nat option"

definition new_Error :: "string \<Rightarrow> js_error" where
  "new_Error msg = \<lparr>statusCode = None, message = msg, retry_after = None, response_status = None\<rparr>"

subsection \<open>chunkArray\<close>

text \<open>
  \<^verbatim>\<open>
  function chunkArray<T>(array: T[], size: number): T[][] {
    const chunks: T[][] = [];
    for (let i = 0; i < array.length; i += size) {
      chunks.push(array.slice(i, i + size));
    }
    return chunks;
  }
  \<close>
  The parameter \<^verbatim>\<open>size\<close> is \<open>chunk_size\<close>. With a size of 0 and a non-empty array the
  loop does not end; \<open>None\<close> is the value of a run that does not return.
\<close>

partial_function (option) chunkArray_loop ::
  "'a list \<Rightarrow> nat \<Rightarrow> nat \<Rightarrow> 'a list list \<Rightarrow> 'a list list option" where
  "chunkArray_loop array chunk_size i chunks =
     (if i < length array
      then chunkArray_loop array chunk_size (i + chunk_size)
             (chunks @ [take chunk_size (drop i array)])
      else Some chunks)"

declare chunkArray_loop.simps [code]

definition chunkArray :: "'a list \<Rightarrow> nat \<Rightarrow> 'a list list option" where
  "chunkArray array chunk_size = chunkArray_loop array chunk_size 0 []"

subsection \<open>retryableSpotifyCall\<close>

text \<open>
  \<^verbatim>\<open>
  const retryAfter = error?.headers?.['retry-after'] ?
    parseInt(error.headers['retry-after']) * 1000 :
    initialDelayMs * Math.pow(2, attempt - 1);
  \<close>
  An empty string is falsy, as a missing header is.
\<close>

definition backoff :: "nat \<Rightarrow> nat \<Rightarrow> number" where
  "backoff initialDelayMs attempt = Num (int (initialDelayMs * 2 ^ (attempt - 1)))"

definition retryAfter :: "js_error \<Rightarrow> nat \<Rightarrow> nat \<Rightarrow> number" where
  "retryAfter err initialDelayMs attempt =
     (case retry_after err of
        Some header \<Rightarrow>
          if header \<noteq> [] then times_number (parseInt header) 1000
          else backoff initialDelayMs attempt
      | None \<Rightarrow> backoff initialDelayMs attempt)"

text \<open>What is thrown after the loop, from \<^verbatim>\<open>lastError\<close>.\<close>

definition exhausted :: "js_error option \<Rightarrow> js_error" where
  "exhausted lastError =
     (case lastError of
        Some e \<Rightarrow>
          if statusCode e = Some 429
          then new_Error ''Rate limit exceeded. Too many requests to Spotify API. Please try again later.''
          else e
      | None \<Rightarrow> new_Error ''Unknown error occurred during Spotify API call'')"

text \<open>
  \<^verbatim>\<open>
  let lastError;
  for (let attempt = 1; attempt <= maxRetries; attempt++) {
    try {
      return await operation();
    } catch (error: any) {
      lastError = error;
      if (error?.statusCode === 401 || error?.statusCode === 403) { throw error; }
      if (error?.statusCode === 429) {
        const retryAfter = ...;
        if (attempt < maxRetries) { await delay(retryAfter); continue; }
      }
      if (attempt < maxRetries) {
        const waitTime = initialDelayMs * Math.pow(2, attempt - 1);
        await delay(waitTime);
      }
    }
  }
  if (lastError) { if (lastError.statusCode === 429) throw new Error(...); else throw lastError; }
  throw new Error('Unknown error occurred during Spotify API call');
  \<close>
  The operation is a computation on the state; the loop is a recursion on the attempt;
  the caught \<^verbatim>\<open>error\<close> is \<open>err\<close>.
\<close>

function retry_loop ::
  "('w io \<Rightarrow> (js_error + 'a) \<times> 'w io) \<Rightarrow> nat \<Rightarrow> nat \<Rightarrow> nat \<Rightarrow> js_error option \<Rightarrow> 'w io
     \<Rightarrow> (js_error + 'a) \<times> 'w io" where
  "retry_loop operation maxRetries initialDelayMs attempt lastError s =
     (if attempt \<le> maxRetries then
        (case operation (s\<lparr>trace := trace s @ [Attempt attempt]\<rparr>) of
           (Inr result, s1) \<Rightarrow> (Inr result, s1)
         | (Inl err, s1) \<Rightarrow>
             if statusCode err = Some 401 \<or> statusCode err = Some 403 then (Inl err, s1)
             else if statusCode err = Some 429 \<and> attempt < maxRetries then
               retry_loop operation maxRetries initialDelayMs (attempt + 1) (Some err)
                 (delay (retryAfter err initialDelayMs attempt) s1)
             else if attempt < maxRetries then
               retry_loop operation maxRetries initialDelayMs (attempt + 1) (Some err)
                 (delay (backoff initialDelayMs attempt) s1)
             else
               retry_loop operation maxRetries initialDelayMs (attempt + 1) (Some err) s1)
      else (Inl (exhausted lastError), s))"
  by pat_completeness auto
termination
  by (relation "measure (\<lambda>(operation, maxRetries, initialDelayMs, attempt, lastError, s).
                  Suc maxRetries - attempt)") auto

declare retry_loop.simps [simp del]

definition retryableSpotifyCall ::
  "('w io \<Rightarrow> (js_error + 'a) \<times> 'w io) \<Rightarrow> nat \<Rightarrow> nat \<Rightarrow> 'w io \<Rightarrow> (js_error + 'a) \<times> 'w io" where
  "retryableSpotifyCall operation maxRetries initialDelayMs s =
     retry_loop operation maxRetries initialDelayMs 1 None s"

subsection \<open>getAvailableGenres\<close>

text \<open>
  In a sequential run the caller is the only client of the request queue: the queue is
  empty and nothing is running, so \<^verbatim>\<open>requestQueue.add(fn)\<close> admits \<^verbatim>\<open>fn\<close> at once and
  settles as \<^verbatim>\<open>fn\<close> does. The queue itself is modelled in the next but one subsection.
\<close>

definition requestQueue_add :: "('s \<Rightarrow> 'r \<times> 's) \<Rightarrow> 's \<Rightarrow> 'r \<times> 's" where
  "requestQueue_add fn s = fn s"

definition default_genres :: "string list" where
  "default_genres = [''pop'', ''rock'', ''indie'']"

text \<open>
  \<^verbatim>\<open>
  export async function getAvailableGenres(accessToken: string) {
    if (!accessToken) { throw new Error('No access token provided'); }
    try {
      return await requestQueue.add(async () => {
        return retryableSpotifyCall(async () => {
          const response = await fetch('.../recommendations/available-genre-seeds', ...);
          if (!response.ok) { return ['pop', 'rock', 'indie']; }
          const data = await response.json();
          return data.genres || ['pop', 'rock', 'indie'];
        });
      });
    } catch (error) {
      return ['pop', 'rock', 'indie'];
    }
  }
  \<close>
  The operation that is retried comes first: a response that is not ok gives the default
  genres, and so does a JSON answer without \<^verbatim>\<open>genres\<close>; an empty array is truthy and is
  returned as it is.
\<close>

definition availableGenres_operation ::
  "'w remote \<Rightarrow> string \<Rightarrow> 'w io \<Rightarrow> (js_error + string list) \<times> 'w io" where
  "availableGenres_operation remote accessToken s =
     (case fetch remote (AvailableGenreSeeds accessToken) s of
        (Rejected msg, s1) \<Rightarrow> (Inl (new_Error msg), s1)
      | (Responded status statusText body, s1) \<Rightarrow>
          if \<not> ok status then (Inr default_genres, s1)
          else (case body of
                  Inl msg \<Rightarrow> (Inl (new_Error msg), s1)
                | Inr data \<Rightarrow>
                    (Inr (case genres data of Some gs \<Rightarrow> gs | None \<Rightarrow> default_genres), s1)))"

definition getAvailableGenres ::
  "'w remote \<Rightarrow> string \<Rightarrow> 'w io \<Rightarrow> (js_error + string list) \<times> 'w io" where
  "getAvailableGenres remote accessToken s =
     (if accessToken = [] then (Inl (new_Error ''No access token provided''), s)
      else (case requestQueue_add
                   (retryableSpotifyCall (availableGenres_operation remote accessToken) 3 1000) s of
              (Inr gs, s1) \<Rightarrow> (Inr gs, s1)
            | (Inl err, s1) \<Rightarrow> (Inr default_genres, s1)))"

subsection \<open>getRecommendations\<close>

text \<open>
  \<^verbatim>\<open>
  function createFallbackRecommendations(limit: number) {
    return Array(limit).fill(null).map((_, index) => ({
      id: `fallback-${index}`,
      name: `Fallback Track ${index + 1}`,
      artists: [{ name: 'Various Artists' }],
      album: { images: [{ url: '/placeholder.svg' }] },
      external_urls: { spotify: 'https://open.spotify.com' }
    }));
  }
  \<close>
  \<^verbatim>\<open>Array(limit)\<close> throws \<^verbatim>\<open>RangeError: Invalid array length\<close> unless \<^verbatim>\<open>limit\<close> is an
  array length; \<^verbatim>\<open>fill\<close> and \<^verbatim>\<open>map\<close> then run over the indices from 0.
\<close>

definition fallback_track :: "nat \<Rightarrow> track" where
  "fallback_track index =
     \<lparr>id_track = ''fallback-'' @ toString index,
      name_track = ''Fallback Track '' @ toString (index + 1),
      artists = [''Various Artists''],
      album_images = [''/placeholder.svg''],
      external_urls_spotify = ''https://open.spotify.com''\<rparr>"

definition createFallbackRecommendations :: "js_number \<Rightarrow> js_error + track list" where
  "createFallbackRecommendations limit =
     (case array_length limit of
        None \<Rightarrow> Inl (new_Error ''Invalid array length'')
      | Some n \<Rightarrow> Inr (map fallback_track [0..<n]))"

text \<open>\<^verbatim>\<open>/^[0-9A-Za-z]{22}$/.test(id)\<close>\<close>

definition alphanumeric :: "char \<Rightarrow> bool" where
  "alphanumeric c =
     (let n = (of_char c :: nat) in
      (48 \<le> n \<and> n \<le> 57) \<or> (65 \<le> n \<and> n \<le> 90) \<or> (97 \<le> n \<and> n \<le> 122))"

definition validTrackId :: "string \<Rightarrow> bool" where
  "validTrackId id_str = (length id_str = 22 \<and> list_all alphanumeric id_str)"

text \<open>
  The body of both \<^verbatim>\<open>try\<close> blocks of \<^verbatim>\<open>getRecommendations\<close>, which differ in the
  seeds of the request only:
  \<^verbatim>\<open>
  const response = await fetch(`https://api.spotify.com/v1/recommendations?${params}`, ...);
  if (!response.ok) {
    throw new Error(`Spotify API error: ${response.status} ${response.statusText}`);
  }
  const data = await response.json();
  console.log(`Found ${data.tracks.length} recommendations ...`);
  return data.tracks;
  \<close>
  Reading \<^verbatim>\<open>data.tracks.length\<close> throws when the answer has no \<^verbatim>\<open>tracks\<close>.
\<close>

definition recommendations_attempt ::
  "'w remote \<Rightarrow> request \<Rightarrow> 'w io \<Rightarrow> (js_error + track list) \<times> 'w io" where
  "recommendations_attempt remote req s =
     (case fetch remote req s of
        (Rejected msg, s1) \<Rightarrow> (Inl (new_Error msg), s1)
      | (Responded status statusText body, s1) \<Rightarrow>
          if \<not> ok status
          then (Inl (new_Error (''Spotify API error: '' @ toString status @ '' '' @ statusText)), s1)
          else (case body of
                  Inl msg \<Rightarrow> (Inl (new_Error msg), s1)
                | Inr data \<Rightarrow>
                    (case tracks data of
                       None \<Rightarrow> (Inl (new_Error ''Cannot read properties of undefined (reading 'length')''), s1)
                     | Some ts \<Rightarrow> (Inr ts, s1))))"

text \<open>
  The genre-seed strategy: \<^verbatim>\<open>if (seedGenres.length > 0) { try { ... } catch { } }\<close>.
  \<open>Some ts\<close> is the \<^verbatim>\<open>return data.tracks\<close>; \<open>None\<close> is falling through.
\<close>

definition genre_seed_strategy ::
  "'w remote \<Rightarrow> string \<Rightarrow> int \<Rightarrow> js_number \<Rightarrow> string list \<Rightarrow> 'w io
     \<Rightarrow> track list option \<times> 'w io" where
  "genre_seed_strategy remote accessToken targetPopularity limit seedGenres s =
     (if seedGenres \<noteq> [] then
        (case recommendations_attempt remote
                (Recommendations accessToken (take 5 seedGenres) [] targetPopularity limit) s of
           (Inr ts, s1) \<Rightarrow> (Some ts, s1)
         | (Inl err, s1) \<Rightarrow> (None, s1))
      else (None, s))"

text \<open>
  The loop of the track-seed strategy, from the current \<open>i\<close> down to 1:
  \<^verbatim>\<open>
  for (let i = Math.min(validSeedTracks.length, 5); i > 0; i--) {
    const seeds = validSeedTracks.slice(0, i);
    try { ...; return data.tracks; } catch (error) { }
  }
  \<close>
\<close>

fun track_seed_loop ::
  "'w remote \<Rightarrow> string \<Rightarrow> int \<Rightarrow> js_number \<Rightarrow> string list \<Rightarrow> nat \<Rightarrow> 'w io
     \<Rightarrow> track list option \<times> 'w io" where
  "track_seed_loop remote accessToken targetPopularity limit validSeedTracks 0 s = (None, s)"
| "track_seed_loop remote accessToken targetPopularity limit validSeedTracks (Suc i) s =
     (case recommendations_attempt remote
             (Recommendations accessToken [] (take (Suc i) validSeedTracks) targetPopularity limit) s of
        (Inr ts, s1) \<Rightarrow> (Some ts, s1)
      | (Inl err, s1) \<Rightarrow>
          track_seed_loop remote accessToken targetPopularity limit validSeedTracks i s1)"

text \<open>
  \<^verbatim>\<open>getRecommendations(accessToken, seedTracks, targetPopularity, limit, seedGenres)\<close>.
  The recursive call is made with no seed tracks, from a call that has some; it is
  returned without \<^verbatim>\<open>await\<close>, so that what it throws is not caught by the \<^verbatim>\<open>try\<close>
  around it. Every \<^verbatim>\<open>return createFallbackRecommendations(limit)\<close> stands outside the
  \<^verbatim>\<open>try\<close> blocks: what it throws is thrown by \<^verbatim>\<open>getRecommendations\<close>.
\<close>

function getRecommendations ::
  "'w remote \<Rightarrow> string \<Rightarrow> string list \<Rightarrow> int \<Rightarrow> js_number \<Rightarrow> string list \<Rightarrow> 'w io
     \<Rightarrow> (js_error + track list) \<times> 'w io" where
  "getRecommendations remote accessToken seedTracks targetPopularity limit seedGenres s =
     (if accessToken = [] then (Inl (new_Error ''No access token provided''), s)
      else if seedTracks = [] \<and> seedGenres = [] then (createFallbackRecommendations limit, s)
      else
        (case genre_seed_strategy remote accessToken targetPopularity limit seedGenres s of
           (Some ts, s1) \<Rightarrow> (Inr ts, s1)
         | (None, s1) \<Rightarrow>
             if seedTracks \<noteq> [] then
               (let validSeedTracks = filter validTrackId seedTracks in
                if validSeedTracks = [] then
                  (case getAvailableGenres remote accessToken s1 of
                     (Inr genres', s2) \<Rightarrow>
                       if genres' \<noteq> []
                       then getRecommendations remote accessToken [] targetPopularity limit
                              (take 3 genres') s2
                       else (createFallbackRecommendations limit, s2)
                   | (Inl err, s2) \<Rightarrow> (createFallbackRecommendations limit, s2))
                else
                  (case track_seed_loop remote accessToken targetPopularity limit validSeedTracks
                          (min (length validSeedTracks) 5) s1 of
                     (Some ts, s2) \<Rightarrow> (Inr ts, s2)
                   | (None, s2) \<Rightarrow> (createFallbackRecommendations limit, s2)))
             else (createFallbackRecommendations limit, s1)))"
  by pat_completeness auto
termination
  by (relation "measure (\<lambda>(remote, accessToken, seedTracks, targetPopularity, limit, seedGenres, s).
                  length seedTracks)") auto

declare getRecommendations.simps [simp del]

subsection \<open>getTrackFeatures\<close>

text \<open>The record that stands in for the audio features of a track.\<close>

definition default_features :: features where
  "default_features =
     \<lparr>danceability = 0.5, energy = 0.5, valence = 0.5, tempo = 120,
      acousticness = 0.5, instrumentalness = 0.5\<rparr>"

text \<open>\<^verbatim>\<open>trackIds.map(() => ({ danceability: 0.5, ... }))\<close>\<close>

definition fallbackFeatures :: "string list \<Rightarrow> features list" where
  "fallbackFeatures trackIds = map (\<lambda>_. default_features) trackIds"

text \<open>
  The operation that is retried for a chunk:
  \<^verbatim>\<open>
  const response = await fetch(`https://api.spotify.com/v1/audio-features?ids=${chunk.join(',')}`, ...);
  if (!response.ok) {
    if (response.status === 403) {
      throw new Error(`Spotify API error: 403 Forbidden - Access denied to audio features`);
    }
    throw new Error(`Spotify API error: ${response.status} ${response.statusText}`);
  }
  const data = await response.json();
  return data.audio_features;
  \<close>
\<close>

definition audioFeatures_operation ::
  "'w remote \<Rightarrow> string \<Rightarrow> string list \<Rightarrow> 'w io \<Rightarrow> (js_error + features list option) \<times> 'w io" where
  "audioFeatures_operation remote accessToken chunk s =
     (case fetch remote (AudioFeatures accessToken chunk) s of
        (Rejected msg, s1) \<Rightarrow> (Inl (new_Error msg), s1)
      | (Responded status statusText body, s1) \<Rightarrow>
          if \<not> ok status then
            (if status = 403
             then (Inl (new_Error ''Spotify API error: 403 Forbidden - Access denied to audio features''), s1)
             else (Inl (new_Error (''Spotify API error: '' @ toString status @ '' '' @ statusText)), s1))
          else (case body of
                  Inl msg \<Rightarrow> (Inl (new_Error msg), s1)
                | Inr data \<Rightarrow> (Inr (audio_features data), s1)))"

text \<open>
  The \<^verbatim>\<open>try\<close> block of the loop over the chunks. It ends in a \<^verbatim>\<open>return\<close> of the
  function (\<open>Return\<close>), in the next iteration with the new \<^verbatim>\<open>allFeatures\<close> (\<open>Next\<close>),
  or in a throw. The probe asks for \<^verbatim>\<open>chunk[0]\<close>: a chunk of \<^verbatim>\<open>chunkArray\<close> is never
  empty, and \<open>take 1 chunk\<close> is its first element. Spreading an \<^verbatim>\<open>undefined\<close>
  \<^verbatim>\<open>features\<close> throws.
\<close>

datatype chunk_result = Return "features list" | Next "features list"

definition chunk_try ::
  "'w remote \<Rightarrow> string \<Rightarrow> string list \<Rightarrow> string list list \<Rightarrow> string list \<Rightarrow> features list
     \<Rightarrow> 'w io \<Rightarrow> (js_error + chunk_result) \<times> 'w io" where
  "chunk_try remote accessToken trackIds chunks chunk allFeatures s =
     (case fetch remote (AudioFeatures accessToken (take 1 chunk)) s of
        (Rejected msg, s1) \<Rightarrow> (Inl (new_Error msg), s1)
      | (Responded status statusText body, s1) \<Rightarrow>
          if status = 403 then (Inr (Return (fallbackFeatures trackIds)), s1)
          else
            (case requestQueue_add
                    (retryableSpotifyCall (audioFeatures_operation remote accessToken chunk) 3 1000) s1 of
               (Inl err, s2) \<Rightarrow> (Inl err, s2)
             | (Inr None, s2) \<Rightarrow> (Inl (new_Error ''features is not iterable''), s2)
             | (Inr (Some features'), s2) \<Rightarrow>
                 (Inr (Next (allFeatures @ features')),
                  if length chunks > 1 then delay (Num 300) s2 else s2)))"

text \<open>
  The test of the \<^verbatim>\<open>catch\<close> block:
  \<^verbatim>\<open>
  error.statusCode === 403 ||
  (error.message && error.message.includes('403')) ||
  (error.response && error.response.status === 403)
  \<close>
\<close>

definition is_forbidden :: "js_error \<Rightarrow> bool" where
  "is_forbidden err =
     (statusCode err = Some 403 \<or> includes_str (message err) ''403'' \<or> response_status err = Some 403)"

text \<open>
  The loop \<^verbatim>\<open>for (const chunk of chunks)\<close> over the chunks that remain, and what follows
  it: \<^verbatim>\<open>allFeatures\<close>, or the fallback when nothing was retrieved. The flag
  \<^verbatim>\<open>hasError\<close> is read by the logging only.
\<close>

fun getTrackFeatures_loop ::
  "'w remote \<Rightarrow> string \<Rightarrow> string list \<Rightarrow> string list list \<Rightarrow> string list list \<Rightarrow> features list
     \<Rightarrow> 'w io \<Rightarrow> (js_error + features list) \<times> 'w io" where
  "getTrackFeatures_loop remote accessToken trackIds chunks [] allFeatures s =
     (if allFeatures = [] then (Inr (fallbackFeatures trackIds), s) else (Inr allFeatures, s))"
| "getTrackFeatures_loop remote accessToken trackIds chunks (chunk # rest) allFeatures s =
     (case chunk_try remote accessToken trackIds chunks chunk allFeatures s of
        (Inr (Return fs), s1) \<Rightarrow> (Inr fs, s1)
      | (Inr (Next allFeatures'), s1) \<Rightarrow>
          getTrackFeatures_loop remote accessToken trackIds chunks rest allFeatures' s1
      | (Inl err, s1) \<Rightarrow>
          if is_forbidden err then (Inr (fallbackFeatures trackIds), s1)
          else getTrackFeatures_loop remote accessToken trackIds chunks rest allFeatures s1)"


subsection \<open>RequestQueue\<close>

text \<open>
  \<^verbatim>\<open>
  class RequestQueue {
    private queue: Array<() => Promise<any>> = [];
    private running = 0;
    private maxConcurrent: number;
    async add<T>(fn) {
      return new Promise((resolve, reject) => {
        const queuedFn = async () => {
          try { this.running++; const result = await fn(); resolve(result); return result; }
          catch (error) { reject(error); throw error; }
          finally { this.running--; this.processNext(); }
        };
        this.queue.push(queuedFn);
        if (this.running < this.maxConcurrent) { this.processNext(); }
      });
    }
    private processNext() {
      if (this.queue.length > 0 && this.running < this.maxConcurrent) {
        const nextFn = this.queue.shift();
        if (nextFn) { nextFn().catch(console.error); }
      }
    }
  }
  \<close>
  JavaScript runs each of these blocks to its next \<^verbatim>\<open>await\<close> without interleaving, so the
  queue is a transition system with two kinds of step: a call of \<^verbatim>\<open>add\<close>, and the
  settling of the promise of a work item that is running, upon which the rest of its
  \<^verbatim>\<open>queuedFn\<close> runs. A work item is named by the number of its submission.

  The fields \<open>queue\<close>, \<open>running\<close> and \<open>maxConcurrent\<close> are those of the class. The
  others observe the run: \<open>submitted\<close> lists the items passed to \<^verbatim>\<open>add\<close>, \<open>started\<close> the
  items whose \<^verbatim>\<open>fn()\<close> was called, \<open>in_flight\<close> the items between \<^verbatim>\<open>await fn()\<close> and
  its continuation, \<open>settled\<close> the items whose promise was resolved or rejected.
\<close>

datatype outcome = Resolved | Failed

record RequestQueue =
  queue :: "nat list"
  running :: nat
  maxConcurrent :: nat
  submitted :: "nat list"
  started :: "nat list"
  in_flight :: "nat list"
  settled :: "(nat \<times> outcome) list"


text \<open>\<^verbatim>\<open>queuedFn\<close> up to its \<^verbatim>\<open>await\<close>: \<^verbatim>\<open>this.running++\<close> and the call \<^verbatim>\<open>fn()\<close>.\<close>

definition queuedFn_start :: "nat \<Rightarrow> RequestQueue \<Rightarrow> RequestQueue" where
  "queuedFn_start fn q =
     q\<lparr>running := running q + 1, started := started q @ [fn], in_flight := in_flight q @ [fn]\<rparr>"

definition processNext :: "RequestQueue \<Rightarrow> RequestQueue" where
  "processNext q =
     (if length (queue q) > 0 \<and> running q < maxConcurrent q then
        (case queue q of
           nextFn # rest \<Rightarrow> queuedFn_start nextFn (q\<lparr>queue := rest\<rparr>)
         | [] \<Rightarrow> q)
      else q)"

definition add :: "RequestQueue \<Rightarrow> RequestQueue" where
  "add q =
     (let fn = length (submitted q);
          q1 = q\<lparr>queue := queue q @ [fn], submitted := submitted q @ [fn]\<rparr>
      in if running q1 < maxConcurrent q1 then processNext q1 else q1)"








subsection \<open>Observations on a trace\<close>

text \<open>
  The audio features that an event delivers: those of an ok response to a \<^verbatim>\<open>fetch\<close>.
\<close>

fun delivered :: "event \<Rightarrow> features list" where
  "delivered (Fetch req (Responded status statusText (Inr data))) =
     (if ok status then (case audio_features data of Some fs \<Rightarrow> fs | None \<Rightarrow> []) else [])"
| "delivered e = []"

definition delivered_features :: "event list \<Rightarrow> features list" where
  "delivered_features evs = concat (map delivered evs)"


text \<open>
  What an attempt on the recommendations endpoint yields, read off the answer: the track
  list of an ok response whose body has one, and \<open>None\<close> for a rejected \<^verbatim>\<open>fetch\<close>, a
  status outside 200 to 299, a body that is not JSON or a body without \<^verbatim>\<open>tracks\<close>.
\<close>

fun attempt_result :: "json fetched \<Rightarrow> track list option" where
  "attempt_result (Responded status statusText (Inr data)) = (if ok status then tracks data else None)"
| "attempt_result f = None"


text \<open>
  A cascade over a plan of requests: the events are the requests of the plan in order,
  each made only when all before it yielded nothing, and none made after the first that
  yielded a track list, which is the result; the result is \<open>None\<close> when the whole plan
  was tried in vain.
\<close>

fun cascade :: "request list \<Rightarrow> event list \<Rightarrow> track list option \<Rightarrow> bool" where
  "cascade [] evs res = (evs = [] \<and> res = None)"
| "cascade (req # reqs) [] res = False"
| "cascade (req # reqs) (Fetch req' f # evs) res =
     (req' = req \<and>
      (case attempt_result f of
         Some ts \<Rightarrow> evs = [] \<and> res = Some ts
       | None \<Rightarrow> cascade reqs evs res))"
| "cascade (req # reqs) (e # evs) res = False"


definition track_plan ::
  "string \<Rightarrow> int \<Rightarrow> js_number \<Rightarrow> string list \<Rightarrow> nat \<Rightarrow> request list" where
  "track_plan tok targetPopularity limit validSeedTracks i =
     map (\<lambda>n. Recommendations tok [] (take n validSeedTracks) targetPopularity limit) (rev [1..<Suc i])"

text \<open>
  How \<open>getRecommendations\<close> ends after its cascade: with the list that won, or as
  \<^verbatim>\<open>createFallbackRecommendations(limit)\<close> does.
\<close>

definition outcome_of :: "js_number \<Rightarrow> track list option \<Rightarrow> js_error + track list" where
  "outcome_of limit res =
     (case res of Some ts \<Rightarrow> Inr ts | None \<Rightarrow> createFallbackRecommendations limit)"

text \<open>The characters of the class \<^verbatim>\<open>[0-9A-Za-z]\<close>.\<close>

definition alphanumerics :: string where
  "alphanumerics = ''0123456789ABCDEFGHIJKLMNOPQRSTUVWXYZabcdefghijklmnopqrstuvwxyz''"

subsection \<open>Token refresh\<close>

text \<open>
  The JWT of \<^verbatim>\<open>next-auth\<close>, as the module declaration of the repository types it; any
  further field of the object is the record's extension, which the spread
  \<^verbatim>\<open>...token\<close> copies.
\<close>

record session_user =
  user_name :: "string option"
  email :: "string option"
  image :: "string option"

record token =
  accessToken :: "string option"
  refreshToken :: "string option"
  accessTokenExpires :: "number option"
  error :: "string option"
  user :: "session_user option"

text \<open>The JSON object the provider's token endpoint answers with.\<close>

record token_response =
  access_token :: "string option"
  refresh_token :: "string option"
  expires_in :: "int option"

text \<open>
  \<^verbatim>\<open>
  async function refreshAccessToken(token: any) {
    try {
      const response = await fetch('https://accounts.spotify.com/api/token', {...});
      const data = await response.json();
      if (!response.ok) { throw data; }
      return {
        ...token,
        accessToken: data.access_token,
        refreshToken: data.refresh_token ?? token.refreshToken,
        accessTokenExpires: Date.now() + (data.expires_in * 1000),
      };
    } catch (error) {
      return { ...token, error: 'RefreshAccessTokenError' };
    }
  }
  \<close>
  The model takes what the POST settled to and the value of \<^verbatim>\<open>Date.now()\<close>.
  A missing \<^verbatim>\<open>expires_in\<close> makes the sum \<^verbatim>\<open>NaN\<close>.
\<close>

definition refreshError :: "'a token_scheme \<Rightarrow> 'a token_scheme" where
  "refreshError tok = tok\<lparr>error := Some ''RefreshAccessTokenError''\<rparr>"

definition refreshAccessToken ::
  "'a token_scheme \<Rightarrow> int \<Rightarrow> token_response fetched \<Rightarrow> 'a token_scheme" where
  "refreshAccessToken tok now response =
     (case response of
        Rejected msg \<Rightarrow> refreshError tok
      | Responded status statusText body \<Rightarrow>
          (case body of
             Inl msg \<Rightarrow> refreshError tok
           | Inr data \<Rightarrow>
               if \<not> ok status then refreshError tok
               else tok\<lparr>accessToken := access_token data,
                        refreshToken :=
                          (case refresh_token data of
                             Some r \<Rightarrow> Some r
                           | None \<Rightarrow> refreshToken tok),
                        accessTokenExpires :=
                          Some (case expires_in data of
                                  Some secs \<Rightarrow> Num (now + secs * 1000)
                                | None \<Rightarrow> NaN)\<rparr>))"

text \<open>The refresh succeeded: the response is ok and its body is a JSON object.\<close>

definition refresh_succeeded :: "token_response fetched \<Rightarrow> token_response \<Rightarrow> bool" where
  "refresh_succeeded response data =
     (case response of
        Rejected msg \<Rightarrow> False
      | Responded status statusText body \<Rightarrow> ok status \<and> body = Inr data)"

subsection \<open>Operations and remotes for the examples\<close>

text \<open>
  An operation that plays a script: the world is the list of the outcomes of its
  invocations to come, and each invocation consumes one.
\<close>

definition scripted_operation ::
  "(js_error + 'a) list io \<Rightarrow> (js_error + 'a) \<times> (js_error + 'a) list io" where
  "scripted_operation s =
     (case world s of
        [] \<Rightarrow> (Inl (new_Error ''end of script''), s)
      | r # rs \<Rightarrow> (r, s\<lparr>world := rs\<rparr>))"

definition unauthorized :: js_error where
  "unauthorized =
     \<lparr>statusCode = Some 401, message = ''Unauthorized'', retry_after = None, response_status = None\<rparr>"





text \<open>A track, answers of the remote, and remotes for the examples of the cascade.\<close>

definition some_track :: track where
  "some_track =
     \<lparr>id_track = ''3n3Ppam7vgaVa1iaRUc9Lp'', name_track = ''Mr. Brightside'',
      artists = [''The Killers''], album_images = [],
      external_urls_spotify = ''https://open.spotify.com/track/3n3Ppam7vgaVa1iaRUc9Lp''\<rparr>"

definition found :: "track list \<Rightarrow> json fetched" where
  "found ts = Responded 200 ''OK'' (Inr \<lparr>tracks = Some ts, genres = None, audio_features = None\<rparr>)"

definition bad_request :: "json fetched" where
  "bad_request = Responded 400 ''Bad Request'' (Inl ''Unexpected end of JSON input'')"


definition remote_down :: "unit remote" where
  "remote_down w req = (Rejected ''fetch failed'', w)"

definition remote_single_seed :: "unit remote" where
  "remote_single_seed w req =
     (case req of
        Recommendations tok g t p l \<Rightarrow>
          if g = [] \<and> length t = 1 then (found [some_track], w) else (bad_request, w)
      | _ \<Rightarrow> (Rejected ''fetch failed'', w))"

definition remote_empty_unless_single_seed :: "unit remote" where
  "remote_empty_unless_single_seed w req =
     (case req of
        Recommendations tok g t p l \<Rightarrow>
          if g = [] \<and> length t = 1 then (found [some_track], w) else (found [], w)
      | _ \<Rightarrow> (Rejected ''fetch failed'', w))"


section \<open>Properties\<close>

subsection \<open>Mood score\<close>

lemma calculateMoodScore_mono:
  "v \<le> v' \<Longrightarrow> e \<le> e' \<Longrightarrow> calculateMoodScore v e \<le> calculateMoodScore v' e'"
proof -
  assume "v \<le> v'" "e \<le> e'"
  then have "((v + e) / 2) * 100 \<le> ((v' + e') / 2) * 100"
    by simp
  then have "min 100 (((v + e) / 2) * 100) \<le> min 100 (((v' + e') / 2) * 100)"
    by (rule min.mono [OF order_refl])
  then show ?thesis
    unfolding calculateMoodScore_def by (rule max.mono [OF order_refl])
qed

text \<open>
  Claim C8. For all valence \<open>v\<close> and energy \<open>e\<close> in \<open>[0,1]\<close>, \<open>calculateMoodScore v e\<close>
  equals \<open>clamp(((v + e) / 2) * 100, 0, 100)\<close>, lies in \<open>[0,100]\<close>, and is monotonic
  non-decreasing in \<open>v\<close> for fixed \<open>e\<close> and in \<open>e\<close> for fixed \<open>v\<close>.
\<close>

theorem calculateMoodScore_clamp_range_mono:
  assumes "0 \<le> v" "v \<le> 1" "0 \<le> e" "e \<le> 1"
  shows "calculateMoodScore v e = spec_clamp (((v + e) / 2) * 100) 0 100
       \<and> 0 \<le> calculateMoodScore v e \<and> calculateMoodScore v e \<le> 100
       \<and> (\<forall>v'. 0 \<le> v' \<and> v' \<le> 1 \<and> v \<le> v' \<longrightarrow> calculateMoodScore v e \<le> calculateMoodScore v' e)
       \<and> (\<forall>e'. 0 \<le> e' \<and> e' \<le> 1 \<and> e \<le> e' \<longrightarrow> calculateMoodScore v e \<le> calculateMoodScore v e')"
proof -
  have eq: "calculateMoodScore v e = spec_clamp (((v + e) / 2) * 100) 0 100"
    unfolding calculateMoodScore_def spec_clamp_def by auto
  have range: "0 \<le> calculateMoodScore v e \<and> calculateMoodScore v e \<le> 100"
    unfolding calculateMoodScore_def by auto
  have mono_v: "\<forall>v'. 0 \<le> v' \<and> v' \<le> 1 \<and> v \<le> v' \<longrightarrow> calculateMoodScore v e \<le> calculateMoodScore v' e"
    using calculateMoodScore_mono [of v _ e e] by simp
  have mono_e: "\<forall>e'. 0 \<le> e' \<and> e' \<le> 1 \<and> e \<le> e' \<longrightarrow> calculateMoodScore v e \<le> calculateMoodScore v e'"
    using calculateMoodScore_mono [of v v e] by simp
  from eq range mono_v mono_e show ?thesis by blast
qed

theorem calculateMoodScore_clamp_range_mono_witness:
  "calculateMoodScore (1/4) (3/4) = 50
   \<and> calculateMoodScore (1/4) (3/4) = spec_clamp (((1/4 + 3/4) / 2) * 100) 0 100
   \<and> calculateMoodScore (1/4) (3/4) \<le> calculateMoodScore (1/2) (3/4)
   \<and> calculateMoodScore (1/4) (3/4) \<le> calculateMoodScore (1/4) 1"
proof -
  have h: "(0::real) \<le> 1/4" "(1/4::real) \<le> 1" "(0::real) \<le> 3/4" "(3/4::real) \<le> 1"
    by simp_all
  have v: "calculateMoodScore (1/4) (3/4) = 50"
    by (simp add: calculateMoodScore_def)
  from calculateMoodScore_clamp_range_mono [OF h] v show ?thesis by simp
qed

subsection \<open>Token refresh\<close>

text \<open>
  Claim C6. For every stored token, when a token refresh succeeds and the provider's
  response omits a new refresh token, the stored refresh token is unchanged, the access
  token is replaced by the response's \<open>access_token\<close>, the expiry is set to the current
  time plus \<open>expires_in\<close> seconds in milliseconds, and every other field of the token
  (the error tag, the user, and whatever else the object carries) is unchanged.
\<close>

theorem refreshAccessToken_keeps_refresh_token:
  assumes "refresh_succeeded response data"
    and "refresh_token data = None"
    and "expires_in data = Some secs"
  shows "refreshToken (refreshAccessToken tok now response) = refreshToken tok
       \<and> accessToken (refreshAccessToken tok now response) = access_token data
       \<and> accessTokenExpires (refreshAccessToken tok now response) = Some (Num (now + secs * 1000))
       \<and> error (refreshAccessToken tok now response) = error tok
       \<and> user (refreshAccessToken tok now response) = user tok
       \<and> token.more (refreshAccessToken tok now response) = token.more tok"
  using assms
  by (cases response) (simp_all add: refresh_succeeded_def refreshAccessToken_def)

theorem refreshAccessToken_keeps_refresh_token_witness:
  "refreshAccessToken
     \<lparr>accessToken = Some ''old'', refreshToken = Some ''r0'', accessTokenExpires = Some (Num 5),
      error = None, user = None\<rparr> 1000
     (Responded 200 ''OK'' (Inr \<lparr>access_token = Some ''new'', refresh_token = None, expires_in = Some 3600\<rparr>))
   = \<lparr>accessToken = Some ''new'', refreshToken = Some ''r0'', accessTokenExpires = Some (Num 3601000),
      error = None, user = None\<rparr>"
proof -
  let ?data = "\<lparr>access_token = Some ''new'', refresh_token = None, expires_in = Some 3600\<rparr>"
  let ?resp = "Responded 200 ''OK'' (Inr ?data)"
  let ?tok = "\<lparr>accessToken = Some ''old'', refreshToken = Some ''r0'',
               accessTokenExpires = Some (Num 5), error = None, user = None\<rparr>"
  have h1: "refresh_succeeded ?resp ?data"
    by (simp add: refresh_succeeded_def ok_def)
  have h2: "refresh_token ?data = None" by simp
  have h3: "expires_in ?data = Some 3600" by simp
  have "refreshToken (refreshAccessToken ?tok 1000 ?resp) = Some ''r0''
      \<and> accessToken (refreshAccessToken ?tok 1000 ?resp) = Some ''new''
      \<and> accessTokenExpires (refreshAccessToken ?tok 1000 ?resp) = Some (Num 3601000)
      \<and> error (refreshAccessToken ?tok 1000 ?resp) = None
      \<and> user (refreshAccessToken ?tok 1000 ?resp) = None"
    using refreshAccessToken_keeps_refresh_token [OF h1 h2 h3, of ?tok 1000] by simp
  then show ?thesis
    by (cases "refreshAccessToken ?tok 1000 ?resp") simp
qed

subsection \<open>The retry wrapper\<close>

lemma retry_loop_auth:
  assumes "attempt \<le> maxRetries"
    and "operation (s\<lparr>trace := trace s @ [Attempt attempt]\<rparr>) = (Inl err, s1)"
    and "statusCode err = Some 401 \<or> statusCode err = Some 403"
  shows "retry_loop operation maxRetries initialDelayMs attempt lastError s = (Inl err, s1)"
  using assms by (subst retry_loop.simps) auto

text \<open>
  Claim C3, as stated: for every operation and every retry budget, an operation that
  fails with status 401 or 403 is invoked exactly once and its error is propagated.
  With a budget of 0 the loop body does not run: the operation below, which would fail
  with 401, is not invoked at all (its script is not consumed and the trace is empty),
  and the error thrown is the \<open>Unknown error\<close> of the last line, not the 401.
\<close>

theorem retryableSpotifyCall_zero_budget_counterexample:
  "scripted_operation \<lparr>world = [Inl unauthorized :: js_error + nat], trace = [Attempt 1]\<rparr>
     = (Inl unauthorized, \<lparr>world = [], trace = [Attempt 1]\<rparr>)
   \<and> statusCode unauthorized = Some 401
   \<and> retryableSpotifyCall scripted_operation 0 1000
        \<lparr>world = [Inl unauthorized :: js_error + nat], trace = []\<rparr>
     = (Inl (new_Error ''Unknown error occurred during Spotify API call''),
        \<lparr>world = [Inl unauthorized], trace = []\<rparr>)
   \<and> new_Error ''Unknown error occurred during Spotify API call'' \<noteq> unauthorized"
  by (simp add: scripted_operation_def unauthorized_def retryableSpotifyCall_def exhausted_def
        new_Error_def retry_loop.simps)

text \<open>
  Claim C3, amended: for every operation and every retry budget of at least 1, if the
  operation, invoked by the wrapper, fails with an error whose status code is 401 or 403,
  the whole call is that one invocation: its result is the same error, unmodified, and
  its final state is the state in which that invocation ended, so nothing was waited for
  and the operation was not invoked again.
\<close>

theorem retryableSpotifyCall_auth_error_no_retry:
  assumes "0 < maxRetries"
    and "operation (s\<lparr>trace := trace s @ [Attempt 1]\<rparr>) = (Inl err, s1)"
    and "statusCode err = Some 401 \<or> statusCode err = Some 403"
  shows "retryableSpotifyCall operation maxRetries initialDelayMs s = (Inl err, s1)"
  unfolding retryableSpotifyCall_def
  using assms by (intro retry_loop_auth) auto

theorem retryableSpotifyCall_auth_error_no_retry_witness:
  "retryableSpotifyCall scripted_operation 3 1000
     \<lparr>world = [Inl unauthorized, Inr (7::nat)], trace = []\<rparr>
   = (Inl unauthorized, \<lparr>world = [Inr 7], trace = [Attempt 1]\<rparr>)"
proof -
  let ?s = "\<lparr>world = [Inl unauthorized, Inr (7::nat)], trace = []\<rparr>"
  have h1: "0 < (3::nat)" by simp
  have h2: "scripted_operation (?s\<lparr>trace := trace ?s @ [Attempt 1]\<rparr>)
            = (Inl unauthorized, \<lparr>world = [Inr 7], trace = [Attempt 1]\<rparr>)"
    by (simp add: scripted_operation_def)
  have h3: "statusCode unauthorized = Some 401 \<or> statusCode unauthorized = Some 403"
    by (simp add: unauthorized_def)
  show ?thesis
    by (rule retryableSpotifyCall_auth_error_no_retry
          [where maxRetries = 3 and operation = scripted_operation and s = ?s
             and err = unauthorized, OF h1 h2 h3])
qed

subsection \<open>parseInt and the wait after a 429\<close>









text \<open>Some values of \<^verbatim>\<open>parseInt\<close>, as the language gives them.\<close>

lemma parseInt_examples:
  "parseInt (code_units ''2'') = Num 2"
  "parseInt (code_units ''120'') = Num 120"
  "parseInt (code_units '' 30 seconds'') = Num 30"
  "parseInt (0xA0 # code_units ''5'') = Num 5"
  "parseInt (0x2003 # 0xFEFF # code_units ''5'') = Num 5"
  "parseInt (code_units ''2.5'') = Num 2"
  "parseInt (code_units ''+7'') = Num 7"
  "parseInt (code_units ''-7'') = Num (- 7)"
  "parseInt (code_units ''0x1F'') = Num 31"
  "parseInt (code_units ''0x'') = NaN"
  "parseInt (code_units ''Wed, 21 Oct 2026 07:28:00 GMT'') = NaN"
  "parseInt (code_units ''- 7'') = NaN"
  "parseInt [] = NaN"
  by (simp_all add: parseInt_def code_units_def is_space_def is_digit_def digit_value_def Let_def)




subsection \<open>chunkArray and getTrackFeatures\<close>

text \<open>\<^verbatim>\<open>s.includes(sub)\<close> holds when \<open>sub\<close> occurs in \<open>s\<close>.\<close>

lemma includes_str_iff: "includes_str str sub \<longleftrightarrow> (\<exists>ps ss. str = ps @ sub @ ss)"
proof (induction str)
  case Nil
  show ?case by auto
next
  case (Cons c cs)
  show ?case
  proof
    assume "includes_str (c # cs) sub"
    then consider "prefix sub (c # cs)" | "includes_str cs sub" by auto
    then show "\<exists>ps ss. c # cs = ps @ sub @ ss"
    proof cases
      case 1
      then obtain ss where "c # cs = sub @ ss" by (auto simp: prefix_def)
      then have "c # cs = [] @ sub @ ss" by simp
      then show ?thesis by blast
    next
      case 2
      with Cons obtain ps ss where "cs = ps @ sub @ ss" by blast
      then have "c # cs = (c # ps) @ sub @ ss" by simp
      then show ?thesis by blast
    qed
  next
    assume "\<exists>ps ss. c # cs = ps @ sub @ ss"
    then obtain ps ss where e: "c # cs = ps @ sub @ ss" by blast
    show "includes_str (c # cs) sub"
    proof (cases ps)
      case Nil
      with e have "prefix sub (c # cs)" by (simp add: prefix_def)
      then show ?thesis by simp
    next
      case (Cons p ps')
      with e have "cs = ps' @ sub @ ss" by simp
      with Cons.IH have "includes_str cs sub" by blast
      then show ?thesis by simp
    qed
  qed
qed

lemma chunkArray_250:
  "map_option (map length) (chunkArray (replicate 250 ''x'') 100) = Some [100, 100, 50]"
  by code_simp

lemma delivered_features_append [simp]:
  "delivered_features (xs @ ys) = delivered_features xs @ delivered_features ys"
  by (simp add: delivered_features_def)

lemma delivered_features_Nil [simp]: "delivered_features [] = []"
  by (simp add: delivered_features_def)

lemma delivered_features_Cons [simp]:
  "delivered_features (e # evs) = delivered e @ delivered_features evs"
  by (simp add: delivered_features_def)

lemma fetch_trace:
  "fetch remote req s = (r, s1) \<Longrightarrow> trace s1 = trace s @ [Fetch req r]"
  by (auto simp: fetch_def split: prod.splits)









lemma getTrackFeatures_loop_probe_forbidden:
  assumes "fetch remote (AudioFeatures tok (take 1 chunk)) s = (Responded 403 statusText body, s1)"
  shows "getTrackFeatures_loop remote tok trackIds chunks (chunk # rest) allFeatures s
         = (Inr (fallbackFeatures trackIds), s1)"
  using assms by (simp add: chunk_try_def)

lemma getTrackFeatures_loop_caught_forbidden:
  assumes "chunk_try remote tok trackIds chunks chunk allFeatures s = (Inl err, s1)"
    and "is_forbidden err"
  shows "getTrackFeatures_loop remote tok trackIds chunks (chunk # rest) allFeatures s
         = (Inr (fallbackFeatures trackIds), s1)"
  using assms by simp






subsection \<open>getRecommendations\<close>

lemma recommendations_attempt_fetch:
  assumes "recommendations_attempt remote req s = (r, s1)"
  shows "\<exists>f. trace s1 = trace s @ [Fetch req f]
           \<and> (case attempt_result f of Some ts \<Rightarrow> r = Inr ts | None \<Rightarrow> (\<exists>e. r = Inl e))"
proof -
  obtain f s0 where f: "fetch remote req s = (f, s0)"
    by (cases "fetch remote req s")
  from fetch_trace [OF f] have tr: "trace s0 = trace s @ [Fetch req f]" .
  have "s1 = s0 \<and> (case attempt_result f of Some ts \<Rightarrow> r = Inr ts | None \<Rightarrow> (\<exists>e. r = Inl e))"
  proof (cases f)
    case (Rejected msg)
    with assms f show ?thesis
      by (auto simp: recommendations_attempt_def)
  next
    case (Responded status statusText body)
    show ?thesis
    proof (cases body)
      case (Inl msg)
      with assms f Responded show ?thesis
        by (cases "ok status") (auto simp: recommendations_attempt_def)
    next
      case (Inr data)
      with assms f Responded show ?thesis
        by (cases "ok status"; cases "tracks data") (auto simp: recommendations_attempt_def)
    qed
  qed
  with tr show ?thesis by auto
qed




lemma cascade_success_last:
  "cascade plan evs res \<Longrightarrow> i < length evs \<Longrightarrow> evs ! i = Fetch req f
     \<Longrightarrow> attempt_result f = Some ts \<Longrightarrow> Suc i = length evs \<and> res = Some ts"
proof (induction plan evs res arbitrary: i rule: cascade.induct)
  case (3 req reqs req' f' evs res)
  show ?case
  proof (cases i)
    case 0
    with 3 show ?thesis by (auto split: option.splits)
  next
    case (Suc j)
    with 3 show ?thesis by (auto split: option.splits)
  qed
qed auto

lemma cascade_all_fail:
  "cascade plan evs res \<Longrightarrow> res = None \<Longrightarrow> length evs = length plan"
  by (induction plan evs res rule: cascade.induct) (auto split: option.splits)



lemma track_plan_Suc:
  "track_plan tok tp limit valid (Suc i) =
     Recommendations tok [] (take (Suc i) valid) tp limit # track_plan tok tp limit valid i"
  by (simp add: track_plan_def)

lemma track_seed_loop_cascade:
  assumes "track_seed_loop remote tok tp limit valid i s = (res, s')"
  shows "\<exists>evs. trace s' = trace s @ evs \<and> cascade (track_plan tok tp limit valid i) evs res"
  using assms
proof (induction i arbitrary: s)
  case 0
  then show ?case
    by (intro exI [of _ "[]"]) (auto simp: track_plan_def)
next
  case (Suc i)
  let ?req = "Recommendations tok [] (take (Suc i) valid) tp limit"
  obtain r s0 where a: "recommendations_attempt remote ?req s = (r, s0)"
    by (cases "recommendations_attempt remote ?req s")
  from recommendations_attempt_fetch [OF a] obtain f where f:
    "trace s0 = trace s @ [Fetch ?req f]"
    "case attempt_result f of Some ts \<Rightarrow> r = Inr ts | None \<Rightarrow> (\<exists>e. r = Inl e)"
    by blast
  show ?case
  proof (cases "attempt_result f")
    case (Some ts)
    with f(2) a Suc.prems have "res = Some ts" "s' = s0"
      by auto
    with f(1) Some show ?thesis
      by (intro exI [of _ "[Fetch ?req f]"]) (simp add: track_plan_Suc)
  next
    case None
    with f(2) a Suc.prems have "track_seed_loop remote tok tp limit valid i s0 = (res, s')"
      by auto
    from Suc.IH [OF this] obtain evs where evs: "trace s' = trace s0 @ evs"
      "cascade (track_plan tok tp limit valid i) evs res"
      by blast
    with f(1) None show ?thesis
      by (intro exI [of _ "Fetch ?req f # evs"]) (simp add: track_plan_Suc)
  qed
qed







lemma alphanumeric_iff: "alphanumeric c \<longleftrightarrow> c \<in> set alphanumerics"
proof
  assume "c \<in> set alphanumerics"
  then show "alphanumeric c"
    by (auto simp: alphanumerics_def alphanumeric_def)
next
  assume a: "alphanumeric c"
  define n where "n = (of_char c :: nat)"
  have c: "c = char_of n" by (simp add: n_def)
  from a have "n \<in> {48..<58} \<union> {65..<91} \<union> {97..<123}"
    by (auto simp: alphanumeric_def n_def Let_def)
  then have "n \<in> set ([48..<58] @ [65..<91] @ [97..<123])"
    by (simp only: set_append set_upt Un_assoc)
  then have "char_of n \<in> char_of ` set ([48..<58] @ [65..<91] @ [97..<123])"
    by (rule imageI)
  also have "char_of ` set ([48..<58] @ [65..<91] @ [97..<123]) = set (map char_of ([48..<58] @ [65..<91] @ [97..<123]))"
    by simp
  also have "map char_of ([48..<58] @ [65..<91] @ [97..<123::nat]) = alphanumerics"
    unfolding alphanumerics_def by code_simp
  finally show "c \<in> set alphanumerics" using c by simp
qed





lemma recommendations_attempt_fails:
  assumes "attempt_result (fst (remote (world s) req)) = None"
  shows "\<exists>e s1. recommendations_attempt remote req s = (Inl e, s1)"
proof -
  obtain f w where rw: "remote (world s) req = (f, w)"
    by (cases "remote (world s) req")
  with assms have none: "attempt_result f = None" by simp
  show ?thesis
  proof (cases f)
    case (Rejected msg)
    with rw show ?thesis
      by (simp add: recommendations_attempt_def fetch_def)
  next
    case (Responded status statusText body)
    show ?thesis
    proof (cases body)
      case (Inl msg)
      with rw Responded show ?thesis
        by (simp add: recommendations_attempt_def fetch_def)
    next
      case (Inr data)
      with rw Responded none show ?thesis
        by (cases "ok status") (simp_all add: recommendations_attempt_def fetch_def)
    qed
  qed
qed

lemma genre_seed_strategy_fails:
  assumes "\<forall>w g t p l. attempt_result (fst (remote w (Recommendations tok g t p l))) = None"
  shows "\<exists>s1. genre_seed_strategy remote tok tp limit seedGenres s = (None, s1)"
proof (cases "seedGenres = []")
  case True
  then show ?thesis by (simp add: genre_seed_strategy_def)
next
  case False
  from assms have "attempt_result (fst (remote (world s)
                     (Recommendations tok (take 5 seedGenres) [] tp limit))) = None"
    by blast
  from recommendations_attempt_fails
         [where remote = remote and s = s
            and req = "Recommendations tok (take 5 seedGenres) [] tp limit", OF this] False
  show ?thesis
    by (auto simp: genre_seed_strategy_def)
qed

lemma track_seed_loop_fails:
  assumes "\<forall>w g t p l. attempt_result (fst (remote w (Recommendations tok g t p l))) = None"
  shows "\<exists>s1. track_seed_loop remote tok tp limit valid i s = (None, s1)"
proof (induction i arbitrary: s)
  case 0
  show ?case by simp
next
  case (Suc i)
  from assms have "attempt_result (fst (remote (world s)
                     (Recommendations tok [] (take (Suc i) valid) tp limit))) = None"
    by blast
  from recommendations_attempt_fails
         [where remote = remote and s = s
            and req = "Recommendations tok [] (take (Suc i) valid) tp limit", OF this]
  obtain e s0 where
    "recommendations_attempt remote (Recommendations tok [] (take (Suc i) valid) tp limit) s = (Inl e, s0)"
    by blast
  with Suc [of s0] show ?case by simp
qed

lemma getRecommendations_genres_only_fails:
  assumes "tok \<noteq> []"
    and "\<forall>w g t p l. attempt_result (fst (remote w (Recommendations tok g t p l))) = None"
  shows "\<exists>s'. getRecommendations remote tok [] tp limit seedGenres s
               = (createFallbackRecommendations limit, s')"
proof -
  from genre_seed_strategy_fails [OF assms(2)] obtain s1 where
    "genre_seed_strategy remote tok tp limit seedGenres s = (None, s1)"
    by blast
  with assms(1) show ?thesis
    by (simp add: getRecommendations.simps)
qed

lemma getRecommendations_all_fail:
  assumes tok: "tok \<noteq> []"
    and fail: "(seedTracks = [] \<and> seedGenres = [])
       \<or> (\<forall>w g t p l. attempt_result (fst (remote w (Recommendations tok g t p l))) = None)"
  shows "\<exists>s'. getRecommendations remote tok seedTracks tp limit seedGenres s
               = (createFallbackRecommendations limit, s')"
proof (cases "seedTracks = [] \<and> seedGenres = []")
  case True
  with tok show ?thesis
    by (simp add: getRecommendations.simps)
next
  case False
  with fail have all:
    "\<forall>w g t p l. attempt_result (fst (remote w (Recommendations tok g t p l))) = None"
    by blast
  from genre_seed_strategy_fails [OF all] obtain s1 where
    g: "genre_seed_strategy remote tok tp limit seedGenres s = (None, s1)"
    by blast
  show ?thesis
  proof (cases "seedTracks = []")
    case True
    with getRecommendations_genres_only_fails [OF tok all] show ?thesis by blast
  next
    case tracks: False
    let ?valid = "filter validTrackId seedTracks"
    show ?thesis
    proof (cases "?valid = []")
      case valid: False
      from track_seed_loop_fails [OF all] obtain s2 where
        "track_seed_loop remote tok tp limit ?valid (min (length ?valid) 5) s1 = (None, s2)"
        by blast
      with tok tracks g valid show ?thesis
        by (simp add: getRecommendations.simps Let_def)
    next
      case valid: True
      obtain rg s2 where a: "getAvailableGenres remote tok s1 = (rg, s2)"
        by (cases "getAvailableGenres remote tok s1")
      show ?thesis
      proof (cases rg)
        case (Inl e)
        with tok tracks g valid a show ?thesis
          by (simp add: getRecommendations.simps Let_def)
      next
        case (Inr gs)
        show ?thesis
        proof (cases "gs = []")
          case True
          with tok tracks g valid a Inr show ?thesis
            by (simp add: getRecommendations.simps Let_def)
        next
          case False
          from getRecommendations_genres_only_fails [OF tok all] obtain s3 where
            "getRecommendations remote tok [] tp limit (take 3 gs) s2
               = (createFallbackRecommendations limit, s3)"
            by blast
          with tok tracks g valid a Inr False show ?thesis
            by (subst getRecommendations.simps) (simp add: Let_def)
        qed
      qed
    qed
  qed
qed

text \<open>The numbers that \<^verbatim>\<open>Array\<close> takes as a length are the naturals below \<open>2^32\<close>.\<close>

lemma array_length_iff:
  "array_length limit = Some n \<longleftrightarrow> limit = Number (real n) \<and> n < 2 ^ 32"
proof
  assume "limit = Number (real n) \<and> n < 2 ^ 32"
  then show "array_length limit = Some n"
    by (simp add: array_length_def)
next
  assume a: "array_length limit = Some n"
  then obtain x where x: "limit = Number x"
    by (cases limit) (simp_all add: array_length_def)
  with a have b: "0 \<le> x" "x < 2 ^ 32" "of_int \<lfloor>x\<rfloor> = x" "n = nat \<lfloor>x\<rfloor>"
    by (auto simp: array_length_def split: if_splits)
  from b(1) have "0 \<le> \<lfloor>x\<rfloor>" by simp
  with b(3,4) have r: "real n = x" by simp
  with b(2) have "real n < 2 ^ 32" by simp
  then have "n < 2 ^ 32" by simp
  with x r show "limit = Number (real n) \<and> n < 2 ^ 32" by simp
qed

lemma array_length_None_iff:
  "array_length limit = None \<longleftrightarrow> (\<forall>n. limit = Number (real n) \<longrightarrow> 2 ^ 32 \<le> n)"
proof -
  have "array_length limit = None \<longleftrightarrow> (\<forall>n. array_length limit \<noteq> Some n)"
    by auto
  also have "\<dots> \<longleftrightarrow> (\<forall>n. limit = Number (real n) \<longrightarrow> 2 ^ 32 \<le> n)"
    by (auto simp: array_length_iff not_less)
  finally show ?thesis .
qed

lemma createFallbackRecommendations_marked:
  assumes "n < 2 ^ 32"
  shows "\<exists>ts. createFallbackRecommendations (Number (real n)) = Inr ts
           \<and> length ts = n
           \<and> (\<forall>i < n. ts ! i = fallback_track i)
           \<and> (\<forall>t \<in> set ts. prefix ''fallback-'' (id_track t))"
proof -
  from assms have "array_length (Number (real n)) = Some n"
    by (simp add: array_length_iff)
  then show ?thesis
    by (auto simp: createFallbackRecommendations_def fallback_track_def)
qed

text \<open>
  Claim C2, as stated: for every positive limit the call without valid seeds returns
  \<open>limit\<close> placeholders. Here the call has an access token and no seed at all, and the
  limit is \<open>2^32\<close>, then \<open>5/2\<close>: both are positive, and for both \<^verbatim>\<open>Array(limit)\<close> throws,
  so that the call returns no list at all.
\<close>

theorem getRecommendations_invalid_array_length_counterexample:
  "(0::real) < 4294967296
   \<and> getRecommendations remote_down ''t'' [] 50 (Number 4294967296) [] \<lparr>world = (), trace = []\<rparr>
     = (Inl (new_Error ''Invalid array length''), \<lparr>world = (), trace = []\<rparr>)
   \<and> (0::real) < 5 / 2
   \<and> getRecommendations remote_down ''t'' [] 50 (Number (5 / 2)) [] \<lparr>world = (), trace = []\<rparr>
     = (Inl (new_Error ''Invalid array length''), \<lparr>world = (), trace = []\<rparr>)"
  by (simp add: getRecommendations.simps createFallbackRecommendations_def array_length_def)

text \<open>
  Claim C2, amended: when \<open>getRecommendations\<close> is given no seeds at all, or every remote
  attempt on the recommendations endpoint fails, which is the case of seeds that are not
  valid, the call with an access token ends as \<open>createFallbackRecommendations limit\<close>
  does (and throws \<open>No access token provided\<close> without a token). For every limit that is
  a natural number below \<open>2^32\<close> it returns the list of placeholders: exactly \<open>limit\<close>
  entries, the entry at index \<open>i\<close> being the placeholder of \<open>i\<close>, and the identifier of
  every entry starts with \<open>fallback-\<close>. For every other limit (a fraction, a negative
  number, \<open>2^32\<close> or more, \<^verbatim>\<open>NaN\<close>, an infinity) it throws \<open>Invalid array length\<close>.
\<close>

theorem getRecommendations_fallback_when_all_fail:
  assumes fail: "(seedTracks = [] \<and> seedGenres = [])
       \<or> (\<forall>w g t p l. attempt_result (fst (remote w (Recommendations tok g t p l))) = None)"
  shows "\<exists>r s'. getRecommendations remote tok seedTracks tp limit seedGenres s = (r, s')
           \<and> (tok = [] \<longrightarrow> r = Inl (new_Error ''No access token provided''))
           \<and> (tok \<noteq> [] \<longrightarrow> r = createFallbackRecommendations limit)
           \<and> (\<forall>n. tok \<noteq> [] \<and> limit = Number (real n) \<and> n < 2 ^ 32 \<longrightarrow>
                 (\<exists>ts. r = Inr ts \<and> length ts = n
                    \<and> (\<forall>i < n. ts ! i = fallback_track i)
                    \<and> (\<forall>t \<in> set ts. prefix ''fallback-'' (id_track t))))
           \<and> (tok \<noteq> [] \<and> (\<forall>n. limit = Number (real n) \<longrightarrow> 2 ^ 32 \<le> n) \<longrightarrow>
                 r = Inl (new_Error ''Invalid array length''))"
proof (cases "tok = []")
  case True
  then show ?thesis
    by (simp add: getRecommendations.simps)
next
  case tok: False
  from getRecommendations_all_fail [OF tok fail] obtain s' where
    run: "getRecommendations remote tok seedTracks tp limit seedGenres s
            = (createFallbackRecommendations limit, s')"
    by blast
  have valid: "\<forall>n. tok \<noteq> [] \<and> limit = Number (real n) \<and> n < 2 ^ 32 \<longrightarrow>
                 (\<exists>ts. createFallbackRecommendations limit = Inr ts \<and> length ts = n
                    \<and> (\<forall>i < n. ts ! i = fallback_track i)
                    \<and> (\<forall>t \<in> set ts. prefix ''fallback-'' (id_track t)))"
    using createFallbackRecommendations_marked by blast
  have invalid: "tok \<noteq> [] \<and> (\<forall>n. limit = Number (real n) \<longrightarrow> 2 ^ 32 \<le> n) \<longrightarrow>
                 createFallbackRecommendations limit = Inl (new_Error ''Invalid array length'')"
  proof
    assume "tok \<noteq> [] \<and> (\<forall>n. limit = Number (real n) \<longrightarrow> 2 ^ 32 \<le> n)"
    then have "\<forall>n. limit = Number (real n) \<longrightarrow> 2 ^ 32 \<le> n" ..
    then have "array_length limit = None"
      by (simp only: array_length_None_iff)
    then show "createFallbackRecommendations limit = Inl (new_Error ''Invalid array length'')"
      by (simp add: createFallbackRecommendations_def)
  qed
  from tok run valid invalid show ?thesis
    by (intro exI [of _ "createFallbackRecommendations limit"] exI [of _ s']) simp
qed

theorem getRecommendations_fallback_when_all_fail_witness:
  "\<exists>s'. getRecommendations remote_down ''t'' [''not a track id''] 50 (Number 3) [''no-such-genre'']
           \<lparr>world = (), trace = []\<rparr>
         = (Inr [fallback_track 0, fallback_track 1, fallback_track 2], s')
       \<and> map id_track [fallback_track 0, fallback_track 1, fallback_track 2]
         = [''fallback-0'', ''fallback-1'', ''fallback-2'']"
proof -
  have fail: "([''not a track id''] = [] \<and> [''no-such-genre''] = [])
       \<or> (\<forall>w g t p l. attempt_result (fst (remote_down w (Recommendations ''t'' g t p l))) = None)"
    by (simp add: remote_down_def)
  have ids: "map id_track [fallback_track 0, fallback_track 1, fallback_track 2]
             = [''fallback-0'', ''fallback-1'', ''fallback-2'']"
    by code_simp
  have three: "createFallbackRecommendations (Number 3)
               = Inr [fallback_track 0, fallback_track 1, fallback_track 2]"
    by (simp add: createFallbackRecommendations_def array_length_def upt_rec numeral_3_eq_3
          numeral_2_eq_2)
  from getRecommendations_fallback_when_all_fail
         [OF fail, of 50 "Number 3" "\<lparr>world = (), trace = []\<rparr>"]
  have "\<exists>s'. getRecommendations remote_down ''t'' [''not a track id''] 50 (Number 3)
                [''no-such-genre''] \<lparr>world = (), trace = []\<rparr>
              = (createFallbackRecommendations (Number 3), s')"
    by auto
  with three ids show ?thesis by auto
qed

lemma validTrackId_iff:
  "validTrackId x \<longleftrightarrow> length x = 22 \<and> set x \<subseteq> set alphanumerics"
  by (auto simp: validTrackId_def list_all_iff alphanumeric_iff)

text \<open>
  Claim C5, as stated: the track-seed strategy shrinks the prefix until an attempt returns
  non-empty results. Here the attempt with both valid seeds is answered 200 with an empty
  list, and the attempt with one seed would be answered with a track: the loop ends at
  the first answer, the empty list is returned and the second attempt is never made.
\<close>

theorem getRecommendations_stops_at_empty_answer_counterexample:
  "getRecommendations remote_empty_unless_single_seed ''t''
     [''4uLU6hMCjMI75M1A2tKUQC'', ''3n3Ppam7vgaVa1iaRUc9Lp''] 50 (Number 20) []
     \<lparr>world = (), trace = []\<rparr>
   = (Inr [],
      \<lparr>world = (),
       trace = [Fetch (Recommendations ''t'' []
                         [''4uLU6hMCjMI75M1A2tKUQC'', ''3n3Ppam7vgaVa1iaRUc9Lp''] 50 (Number 20)) (found [])]\<rparr>)
   \<and> remote_empty_unless_single_seed ()
         (Recommendations ''t'' [] [''4uLU6hMCjMI75M1A2tKUQC''] 50 (Number 20))
       = (found [some_track], ())
   \<and> validTrackId ''4uLU6hMCjMI75M1A2tKUQC'' \<and> validTrackId ''3n3Ppam7vgaVa1iaRUc9Lp''"
  by (simp add: getRecommendations.simps genre_seed_strategy_def recommendations_attempt_def
        fetch_def remote_empty_unless_single_seed_def found_def ok_def validTrackId_def
        alphanumeric_def numeral_2_eq_2)

text \<open>
  Claim C5, amended: when the genre-seed strategy has not returned, and some seed track
  passes the check \<open>validTrackId\<close> (exactly 22 characters, all of \<open>[0-9A-Za-z]\<close>), the
  track-seed strategy is the cascade over the prefixes of the valid seeds of size
  \<open>min 5 n\<close>, then one fewer, down to 1: it goes on to the next prefix only when an
  attempt fails, and the first attempt answered 2xx with a track list, empty or not, has
  its track list returned unmodified; when all fail the call ends as
  \<open>createFallbackRecommendations limit\<close> does, with the placeholders.
\<close>

theorem getRecommendations_track_seed_strategy:
  assumes tok: "tok \<noteq> []"
    and valid: "filter validTrackId seedTracks \<noteq> []"
    and genre: "genre_seed_strategy remote tok tp limit seedGenres s = (None, s1)"
    and run: "getRecommendations remote tok seedTracks tp limit seedGenres s = (r, s')"
  shows "\<exists>evs res.
           trace s' = trace s1 @ evs
           \<and> cascade (map (\<lambda>n. Recommendations tok [] (take n (filter validTrackId seedTracks)) tp limit)
                        (rev [1..<Suc (min (length (filter validTrackId seedTracks)) 5)]))
                 evs res
           \<and> r = outcome_of limit res
           \<and> (\<forall>req f ts. Fetch req f \<in> set evs \<and> attempt_result f = Some ts \<longrightarrow> r = Inr ts)
           \<and> (\<forall>x. validTrackId x \<longleftrightarrow> length x = 22 \<and> set x \<subseteq> set alphanumerics)"
proof -
  let ?valid = "filter validTrackId seedTracks"
  from valid have tracks: "seedTracks \<noteq> []" by auto
  obtain res s2 where t:
    "track_seed_loop remote tok tp limit ?valid (min (length ?valid) 5) s1 = (res, s2)"
    by (cases "track_seed_loop remote tok tp limit ?valid (min (length ?valid) 5) s1")
  from track_seed_loop_cascade [OF t] obtain evs where evs:
    "trace s2 = trace s1 @ evs"
    "cascade (track_plan tok tp limit ?valid (min (length ?valid) 5)) evs res"
    by blast
  from run tok tracks genre valid t have out: "s' = s2 \<and> r = outcome_of limit res"
    by (cases res) (auto simp: getRecommendations.simps outcome_of_def Let_def)
  have win: "\<forall>req f ts. Fetch req f \<in> set evs \<and> attempt_result f = Some ts \<longrightarrow> r = Inr ts"
  proof (intro allI impI)
    fix req f ts
    assume a: "Fetch req f \<in> set evs \<and> attempt_result f = Some ts"
    then obtain i where "i < length evs" "evs ! i = Fetch req f"
      by (auto simp: in_set_conv_nth)
    from cascade_success_last [OF evs(2) this] a have "res = Some ts" by blast
    with out show "r = Inr ts" by (simp add: outcome_of_def)
  qed
  from evs out win validTrackId_iff show ?thesis
    unfolding track_plan_def by blast
qed

theorem getRecommendations_track_seed_strategy_witness:
  "getRecommendations remote_single_seed ''t''
     [''4uLU6hMCjMI75M1A2tKUQC'', ''not a track id'', ''3n3Ppam7vgaVa1iaRUc9Lp''] 50 (Number 20) []
     \<lparr>world = (), trace = []\<rparr>
   = (Inr [some_track],
      \<lparr>world = (),
       trace = [Fetch (Recommendations ''t'' []
                         [''4uLU6hMCjMI75M1A2tKUQC'', ''3n3Ppam7vgaVa1iaRUc9Lp''] 50 (Number 20)) bad_request,
                Fetch (Recommendations ''t'' [] [''4uLU6hMCjMI75M1A2tKUQC''] 50 (Number 20))
                  (found [some_track])]\<rparr>)
   \<and> (\<exists>res. Inr [some_track] = outcome_of (Number 20) res)"
proof -
  let ?ids = "[''4uLU6hMCjMI75M1A2tKUQC'', ''not a track id'', ''3n3Ppam7vgaVa1iaRUc9Lp'']"
  let ?s = "\<lparr>world = (), trace = []\<rparr>"
  let ?s' = "\<lparr>world = (),
       trace = [Fetch (Recommendations ''t'' []
                         [''4uLU6hMCjMI75M1A2tKUQC'', ''3n3Ppam7vgaVa1iaRUc9Lp''] 50 (Number 20)) bad_request,
                Fetch (Recommendations ''t'' [] [''4uLU6hMCjMI75M1A2tKUQC''] 50 (Number 20))
                  (found [some_track])]\<rparr>"
  have tok: "''t'' \<noteq> []" by simp
  have valid: "filter validTrackId ?ids \<noteq> []"
    by (simp add: validTrackId_def alphanumeric_def)
  have genre: "genre_seed_strategy remote_single_seed ''t'' 50 (Number 20) [] ?s = (None, ?s)"
    by (simp add: genre_seed_strategy_def)
  have run: "getRecommendations remote_single_seed ''t'' ?ids 50 (Number 20) [] ?s = (Inr [some_track], ?s')"
    by (simp add: getRecommendations.simps genre_seed_strategy_def recommendations_attempt_def
          fetch_def remote_single_seed_def found_def bad_request_def ok_def validTrackId_def
          alphanumeric_def numeral_2_eq_2)
  from getRecommendations_track_seed_strategy [OF tok valid genre run]
  have "\<exists>res. Inr [some_track] = outcome_of (Number 20) res"
    by blast
  with run show ?thesis by (intro conjI)
qed

subsection \<open>The request queue\<close>














end
